theory Spec2Isabelle
  imports Main
begin

section \<open>Data model of jetstream/info.go\<close>

text \<open>
  The structs of the \<^verbatim>\<open>interfaces\<close> package are declared outside the files at hand, so
  each record below keeps the fields that \<^verbatim>\<open>info.go\<close> reads or writes, and a name. Opaque
  payloads (versions, diagnostics, relation metadata, configuration) are strings. A Go
  \<^verbatim>\<open>error\<close> is its message; a pointer that may be nil is an \<open>option\<close>; a Go map is
  a partial function.
\<close>

type_synonym error = string

type_synonym json_object = "(string \<times> string) list"

record ConnectedUser =
  GUID_u :: string
  Name_u :: string
  Admin :: bool

record TokenRecord =
  Metadata_t :: string
  SystemShared :: bool

record CNSIRecord =
  GUID :: string
  Name :: string
  CNSIType :: string
  Metadata_c :: string

text \<open>A row of the relations table, as \<^verbatim>\<open>ListRelations\<close> returns it.\<close>

record Relation =
  Provider :: string
  Target :: string
  RelationType :: string
  Metadata :: string

record EndpointRelation =
  Guid :: string
  RelationType_er :: string
  Metadata_er :: string

record EndpointRelations =
  Provides :: "EndpointRelation list"
  Receives :: "EndpointRelation list"

text \<open>
  The value \<^verbatim>\<open>marshalEndpointMetadata\<close> returns as \<^verbatim>\<open>interface{}\<close>: either the
  variable \<^verbatim>\<open>anyJSON\<close> (a map that is still nil when nothing was decoded into it) or the
  metadata string itself.
\<close>

datatype endpoint_metadata = AnyJSON "json_object option" | Plain string

text \<open>\<^verbatim>\<open>EndpointDetail\<close> embeds the \<^verbatim>\<open>CNSIRecord\<close>, so \<^verbatim>\<open>endpoint.GUID\<close> is the record's GUID.\<close>

record EndpointDetail =
  CNSIRecord_e :: CNSIRecord
  EndpointMetadata :: endpoint_metadata
  User_e :: "ConnectedUser option"
  Metadata_e :: "string \<rightharpoonup> string"
  TokenMetadata :: string
  SystemSharedToken :: bool
  Relations :: "EndpointRelations option"

type_synonym endpoints = "string \<rightharpoonup> (string \<rightharpoonup> EndpointDetail)"

record Info =
  Versions :: string
  User :: ConnectedUser
  Endpoints :: endpoints
  CloudFoundry :: string
  PluginConfig :: string
  Diagnostics :: "string option"
  Plugins_Info :: "string \<rightharpoonup> bool"

text \<open>
  An extension. \<^verbatim>\<open>UpdateMetadata\<close> receives a pointer to the snapshot and has no result
  that \<^verbatim>\<open>getInfo\<close> looks at: the model gives it the snapshot and takes back the snapshot
  it leaves, or \<open>None\<close> when the call panics. \<^verbatim>\<open>GetEndpointPlugin\<close> returns an error
  for a plugin that implements no endpoint plugin.
\<close>

record 'c EndpointPlugin =
  GetType :: string
  UpdateMetadata :: "Info \<Rightarrow> string \<Rightarrow> 'c \<Rightarrow> Info option"

record 'c Plugin =
  GetEndpointPlugin :: "error + 'c EndpointPlugin"

text \<open>
  The receiver \<^verbatim>\<open>p *portalProxy\<close>: the collaborators that \<^verbatim>\<open>getInfo\<close> calls, with the
  answers they give during one request. \<open>'c\<close> is the request context
  (\<^verbatim>\<open>echo.Context\<close>). \<^verbatim>\<open>p.Plugins\<close> is ranged over twice; the list is the order of
  that iteration.
\<close>

record 'c portalProxy =
  getVersionsData :: "error + string"
  GetSessionStringValue :: "'c \<Rightarrow> string \<Rightarrow> error + string"
  GetUAAUser :: "string \<Rightarrow> error + ConnectedUser"
  Config_CloudFoundryInfo :: string
  Config_PluginConfig :: string
  Diagnostics_p :: "string option"
  Plugins :: "'c Plugin list"
  buildCNSIList :: "'c \<Rightarrow> CNSIRecord list \<times> error option"
  GetCNSIUserAndToken :: "string \<Rightarrow> string \<Rightarrow> (ConnectedUser option \<times> TokenRecord) option"
  ListRelations :: "error + Relation list"
  PluginsStatus :: "string \<rightharpoonup> bool"

datatype panic = NilMapWrite | PluginPanic

text \<open>What a call of \<^verbatim>\<open>getInfo\<close> ends with: the snapshot, the error, or a panic.\<close>

datatype getInfo_result = Snapshot Info | Error error | Panic panic

section \<open>updateEndpointsWithRelations\<close>

text \<open>
  The innermost loop (lines 48 to 63) for the endpoint with GUID \<open>guid\<close>: each relation
  is appended to \<^verbatim>\<open>Provides\<close> when the endpoint is its provider, else to
  \<^verbatim>\<open>Receives\<close> when the endpoint is its target.
\<close>

fun addRelations :: "Relation list \<Rightarrow> string \<Rightarrow> EndpointRelations \<Rightarrow> EndpointRelations" where
  "addRelations [] guid rs = rs"
| "addRelations (relation # rest) guid rs =
     (if Provider relation = guid then
        addRelations rest guid
          (rs\<lparr>Provides := Provides rs @
             [\<lparr>Guid = Target relation, RelationType_er = RelationType relation,
               Metadata_er = Metadata relation\<rparr>]\<rparr>)
      else if Target relation = guid then
        addRelations rest guid
          (rs\<lparr>Receives := Receives rs @
             [\<lparr>Guid = Provider relation, RelationType_er = RelationType relation,
               Metadata_er = Metadata relation\<rparr>]\<rparr>)
      else addRelations rest guid rs)"

text \<open>The body of the loop over the endpoints (lines 42 to 63).\<close>

definition updateEndpoint :: "Relation list \<Rightarrow> EndpointDetail \<Rightarrow> EndpointDetail" where
  "updateEndpoint relations endpoint =
     (let rs = (case Relations endpoint of
                  None \<Rightarrow> \<lparr>Provides = [], Receives = []\<rparr>
                | Some r \<Rightarrow> r)
      in endpoint\<lparr>Relations := Some (addRelations relations (GUID (CNSIRecord_e endpoint)) rs)\<rparr>)"

text \<open>
  The function returns its error and changes the endpoints in place, every endpoint on
  its own: the model returns the error (\<open>None\<close> for nil) and the map after the call.
\<close>

definition updateEndpointsWithRelations ::
  "'c portalProxy \<Rightarrow> endpoints \<Rightarrow> error option \<times> endpoints" where
  "updateEndpointsWithRelations p endpoints =
     (case ListRelations p of
        Inl err \<Rightarrow> (Some (''Failed to fetch relations: '' @ err), endpoints)
      | Inr relations \<Rightarrow>
          (None,
           \<lambda>t. map_option
                  (\<lambda>endpointsOfType g. map_option (updateEndpoint relations) (endpointsOfType g))
                  (endpoints t)))"

section \<open>marshalEndpointMetadata\<close>

text \<open>
  Go's \<^verbatim>\<open>strings.Index(s, substr)\<close>, from its documentation: the index of the first
  instance of \<open>substr\<close> in \<open>s\<close>, or \<open>-1\<close> when there is none. Go strings are byte
  sequences, as \<open>string\<close> is.
\<close>

fun strings_Index :: "string \<Rightarrow> string \<Rightarrow> int" where
  "strings_Index [] substr = (if substr = [] then 0 else - 1)"
| "strings_Index (c # s) substr =
     (if take (length substr) (c # s) = substr then 0
      else (let i = strings_Index s substr in if i < 0 then - 1 else i + 1))"

text \<open>
  \<^verbatim>\<open>json.Unmarshal\<close> is the library's decoder, a parameter here. It is given the text
  and the address of \<^verbatim>\<open>anyJSON\<close>, a nil map; it returns an error or nil, and it leaves
  in \<^verbatim>\<open>anyJSON\<close> what it decoded, which can be entries stored before it met an error.
  The parameter gives both: the error and the map left (\<open>None\<close> for the nil map). The
  source drops the error and returns \<^verbatim>\<open>anyJSON\<close>.
\<close>

definition marshalEndpointMetadata ::
  "(string \<Rightarrow> error option \<times> json_object option) \<Rightarrow> string \<Rightarrow> endpoint_metadata" where
  "marshalEndpointMetadata json_Unmarshal metadata =
     (if length metadata > 2 \<and> strings_Index metadata ''{'' = 0 then
        (let (err, anyJSON) = json_Unmarshal metadata in AnyJSON anyJSON)
      else Plain metadata)"

section \<open>getInfo\<close>

text \<open>The first loop over the plugins (lines 103 to 113): one empty map per type.\<close>

fun initEndpoints :: "'c Plugin list \<Rightarrow> endpoints \<Rightarrow> endpoints" where
  "initEndpoints [] endpoints = endpoints"
| "initEndpoints (plugin # rest) endpoints =
     (case GetEndpointPlugin plugin of
        Inl err \<Rightarrow> initEndpoints rest endpoints
      | Inr endpointPlugin \<Rightarrow>
          (if length (GetType endpointPlugin) > 0 then
             initEndpoints rest (endpoints(GetType endpointPlugin \<mapsto> Map.empty))
           else initEndpoints rest endpoints))"

text \<open>The \<^verbatim>\<open>EndpointDetail\<close> built for one record (lines 119 to 132).\<close>

definition newEndpoint ::
  "(string \<Rightarrow> error option \<times> json_object option) \<Rightarrow> 'c portalProxy \<Rightarrow> string \<Rightarrow> CNSIRecord \<Rightarrow> EndpointDetail" where
  "newEndpoint json_Unmarshal p userGUID cnsi =
     (let endpoint =
        \<lparr>CNSIRecord_e = cnsi,
         EndpointMetadata = marshalEndpointMetadata json_Unmarshal (Metadata_c cnsi),
         User_e = None,
         Metadata_e = Map.empty,
         TokenMetadata = [],
         SystemSharedToken = False,
         Relations = None\<rparr>
      in case GetCNSIUserAndToken p (GUID cnsi) userGUID of
           None \<Rightarrow> endpoint
         | Some (cnsiUser, token) \<Rightarrow>
             endpoint\<lparr>User_e := cnsiUser, TokenMetadata := Metadata_t token,
                      SystemSharedToken := SystemShared token\<rparr>)"

text \<open>
  The loop over the records (lines 117 to 135). \<^verbatim>\<open>s.Endpoints[cnsiType]\<close> is the nil map
  when the type has no bucket, and the write into it panics: \<open>None\<close>.
\<close>

fun addEndpoints ::
  "(string \<Rightarrow> error option \<times> json_object option) \<Rightarrow> 'c portalProxy \<Rightarrow> string \<Rightarrow> CNSIRecord list \<Rightarrow>
     endpoints \<Rightarrow> endpoints option" where
  "addEndpoints json_Unmarshal p userGUID [] endpoints = Some endpoints"
| "addEndpoints json_Unmarshal p userGUID (cnsi # rest) endpoints =
     (let endpoint = newEndpoint json_Unmarshal p userGUID cnsi;
          cnsiType = CNSIType cnsi
      in case endpoints cnsiType of
           None \<Rightarrow> None
         | Some bucket \<Rightarrow>
             addEndpoints json_Unmarshal p userGUID rest
               (endpoints(cnsiType \<mapsto> bucket(GUID cnsi \<mapsto> endpoint))))"

text \<open>
  The second loop over the plugins (lines 143 to 148). Nothing recovers from a panic of
  \<^verbatim>\<open>UpdateMetadata\<close>, so it ends the loop and the call.
\<close>

fun runPlugins :: "'c Plugin list \<Rightarrow> string \<Rightarrow> 'c \<Rightarrow> Info \<Rightarrow> Info option" where
  "runPlugins [] userGUID c s = Some s"
| "runPlugins (plugin # rest) userGUID c s =
     (case GetEndpointPlugin plugin of
        Inl err \<Rightarrow> runPlugins rest userGUID c s
      | Inr endpointPlugin \<Rightarrow>
          (case UpdateMetadata endpointPlugin s userGUID c of
             None \<Rightarrow> None
           | Some s' \<Rightarrow> runPlugins rest userGUID c s'))"

text \<open>
  \<^verbatim>\<open>getInfo\<close> returns its result together with the warnings it logged
  (\<^verbatim>\<open>log.Warnf\<close>).
\<close>

definition getInfo ::
  "(string \<Rightarrow> error option \<times> json_object option) \<Rightarrow> 'c portalProxy \<Rightarrow> 'c \<Rightarrow> getInfo_result \<times> string list" where
  "getInfo json_Unmarshal p c =
     (case getVersionsData p of
        Inl err \<Rightarrow> (Error ''Could not find database version'', [])
      | Inr versions \<Rightarrow>
     (case GetSessionStringValue p c ''user_id'' of
        Inl err \<Rightarrow> (Error ''Could not find session user_id'', [])
      | Inr userGUID \<Rightarrow>
     (case GetUAAUser p userGUID of
        Inl err \<Rightarrow> (Error ''Could not load session user data'', [])
      | Inr uaaUser \<Rightarrow>
     (let s = \<lparr>Versions = versions, User = uaaUser, Endpoints = Map.empty,
               CloudFoundry = Config_CloudFoundryInfo p, PluginConfig = Config_PluginConfig p,
               Diagnostics = None, Plugins_Info = Map.empty\<rparr>;
          s = (if Admin uaaUser then s\<lparr>Diagnostics := Diagnostics_p p\<rparr> else s);
          s = s\<lparr>Endpoints := initEndpoints (Plugins p) (Endpoints s)\<rparr>
      in case addEndpoints json_Unmarshal p userGUID (fst (buildCNSIList p c)) (Endpoints s) of
           None \<Rightarrow> (Panic NilMapWrite, [])
         | Some endpoints \<Rightarrow>
             (let (err, endpoints) = updateEndpointsWithRelations p endpoints;
                  s = s\<lparr>Endpoints := endpoints\<rparr>;
                  warnings =
                    (case err of
                       None \<Rightarrow> []
                     | Some e \<Rightarrow>
                         [''Failed to add relations data to endpoints during info request: '' @ e])
              in case runPlugins (Plugins p) userGUID c s of
                   None \<Rightarrow> (Panic PluginPanic, warnings)
                 | Some s \<Rightarrow> (Snapshot (s\<lparr>Plugins_Info := PluginsStatus p\<rparr>), warnings))))))"

section \<open>Pagination helpers (paginated-request-helpers.ts)\<close>

text \<open>
  One endpoint's part of a \<^verbatim>\<open>CFResponse\<close>. The response is an object keyed by endpoint
  GUID, and \<^verbatim>\<open>Object.keys\<close> lists the keys in insertion order: an association list.
  \<^verbatim>\<open>total_pages\<close> is a JavaScript number holding a page count: an integer here.
  \<^verbatim>\<open>res[endpointGuid]\<close> is read for the keys of \<open>res\<close> only, so the lookup never
  misses; the branch for a miss is there because \<open>map_of\<close> is partial.
\<close>

record endpoint_response =
  total_pages :: int
  resources :: "string list"

type_synonym CFResponse = "(string \<times> endpoint_response) list"

definition getTotalPages :: "CFResponse \<Rightarrow> int" where
  "getTotalPages res =
     foldl (\<lambda>max endpointGuid.
              (case map_of res endpointGuid of
                 Some endpoint \<Rightarrow> (if max < total_pages endpoint then total_pages endpoint else max)
               | None \<Rightarrow> max))
       0 (map fst res)"

text \<open>
  The entries of the array \<^verbatim>\<open>requests\<close> that \<^verbatim>\<open>flattenPagination\<close> hands to
  \<^verbatim>\<open>forkJoin\<close>: the first response again, and a fetch with the parameters of page \<open>i\<close>.
\<close>

datatype 'r page_request = FirstResData 'r | Fetch int

definition flattenPagination_requests :: "('r \<Rightarrow> int) \<Rightarrow> 'r \<Rightarrow> 'r page_request list" where
  "flattenPagination_requests flattener_getTotalPages firstResData =
     (let maxRequests = flattener_getTotalPages firstResData
      in FirstResData firstResData # map Fetch [2..maxRequests])"

section \<open>Notions used to state the properties\<close>

text \<open>The entry a relation leaves with its provider, and the one it leaves with its target.\<close>

definition provided :: "Relation \<Rightarrow> EndpointRelation" where
  "provided r = \<lparr>Guid = Target r, RelationType_er = RelationType r, Metadata_er = Metadata r\<rparr>"

definition received :: "Relation \<Rightarrow> EndpointRelation" where
  "received r = \<lparr>Guid = Provider r, RelationType_er = RelationType r, Metadata_er = Metadata r\<rparr>"

text \<open>The endpoint stored under type \<open>t\<close> and key \<open>g\<close>, if any.\<close>

definition lookupEndpoint :: "endpoints \<Rightarrow> string \<Rightarrow> string \<Rightarrow> EndpointDetail option" where
  "lookupEndpoint endpoints t g = (case endpoints t of None \<Rightarrow> None | Some bucket \<Rightarrow> bucket g)"

text \<open>An endpoint's two relation lists; empty while \<^verbatim>\<open>Relations\<close> is nil.\<close>

definition providesOf :: "EndpointDetail \<Rightarrow> EndpointRelation list" where
  "providesOf e = (case Relations e of None \<Rightarrow> [] | Some r \<Rightarrow> Provides r)"

definition receivesOf :: "EndpointDetail \<Rightarrow> EndpointRelation list" where
  "receivesOf e = (case Relations e of None \<Rightarrow> [] | Some r \<Rightarrow> Receives r)"

text \<open>The snapshot of a result, if it is one.\<close>

fun snapshotOf :: "getInfo_result \<Rightarrow> Info option" where
  "snapshotOf (Snapshot s) = Some s"
| "snapshotOf (Error e) = None"
| "snapshotOf (Panic x) = None"

text \<open>The non-empty type tags of the plugins that are endpoint plugins, in order.\<close>

fun registeredTypes :: "'c Plugin list \<Rightarrow> string list" where
  "registeredTypes [] = []"
| "registeredTypes (plugin # rest) =
     (case GetEndpointPlugin plugin of
        Inl err \<Rightarrow> registeredTypes rest
      | Inr endpointPlugin \<Rightarrow>
          (if length (GetType endpointPlugin) > 0 then GetType endpointPlugin # registeredTypes rest
           else registeredTypes rest))"

text \<open>What \<^verbatim>\<open>getInfo\<close> logs after the relations step.\<close>

definition relationWarnings :: "'c portalProxy \<Rightarrow> string list" where
  "relationWarnings p =
     (case ListRelations p of
        Inl err \<Rightarrow> [''Failed to add relations data to endpoints during info request: '' @
                     (''Failed to fetch relations: '' @ err)]
      | Inr relations \<Rightarrow> [])"

text \<open>
  The \<^verbatim>\<open>UpdateMetadata\<close> steps of a request, as functions on the snapshot: one for each
  plugin that is an endpoint plugin, in the order of the list.
\<close>

definition extensionSteps :: "'c Plugin list \<Rightarrow> string \<Rightarrow> 'c \<Rightarrow> (Info \<Rightarrow> Info option) list" where
  "extensionSteps plugins userGUID c =
     concat (map (\<lambda>plugin. case GetEndpointPlugin plugin of
                               Inl err \<Rightarrow> []
                             | Inr ep \<Rightarrow> [\<lambda>s. UpdateMetadata ep s userGUID c]) plugins)"

text \<open>The steps run from a snapshot on, each on what the one before left; used in proofs.\<close>

fun stepsFrom :: "(Info \<Rightarrow> Info option) list \<Rightarrow> Info \<Rightarrow> Info option" where
  "stepsFrom [] s = Some s"
| "stepsFrom (step # rest) s = (case step s of None \<Rightarrow> None | Some s' \<Rightarrow> stepsFrom rest s')"

section \<open>A deployment to evaluate the functions on\<close>

text \<open>
  Endpoints \<open>A\<close> of type \<open>cf\<close> and \<open>B\<close> of type \<open>k8s\<close>, a relation from \<open>A\<close> to
  \<open>B\<close>, a user \<open>U\<close> who is no admin and holds a token for \<open>A\<close> only, and plugins for
  the types \<open>cf\<close>, \<open>k8s\<close> and \<open>helm\<close>, one with the empty type and one that is no
  endpoint plugin. The variants differ in one field each.
\<close>

definition exUnmarshal :: "string \<Rightarrow> error option \<times> json_object option" where
  "exUnmarshal text = (Some ''unexpected end of JSON input'', None)"

definition exUser :: ConnectedUser where
  "exUser = \<lparr>GUID_u = ''U'', Name_u = ''operator'', Admin = False\<rparr>"

definition exCNSI :: "string \<Rightarrow> string \<Rightarrow> CNSIRecord" where
  "exCNSI g t = \<lparr>GUID = g, Name = g, CNSIType = t, Metadata_c = []\<rparr>"

definition exDetail :: "string \<Rightarrow> string \<Rightarrow> EndpointDetail" where
  "exDetail g t =
     \<lparr>CNSIRecord_e = exCNSI g t, EndpointMetadata = Plain [], User_e = None,
      Metadata_e = Map.empty, TokenMetadata = [], SystemSharedToken = False, Relations = None\<rparr>"

definition exPlugin :: "string \<Rightarrow> unit Plugin" where
  "exPlugin t = \<lparr>GetEndpointPlugin = Inr \<lparr>GetType = t, UpdateMetadata = (\<lambda>s u c. Some s)\<rparr>\<rparr>"

definition leakPlugin :: "unit Plugin" where
  "leakPlugin =
     \<lparr>GetEndpointPlugin =
        Inr \<lparr>GetType = [], UpdateMetadata = (\<lambda>s u c. Some (s\<lparr>Diagnostics := Some ''leak''\<rparr>))\<rparr>\<rparr>"

definition panicPlugin :: "unit Plugin" where
  "panicPlugin = \<lparr>GetEndpointPlugin = Inr \<lparr>GetType = [], UpdateMetadata = (\<lambda>s u c. None)\<rparr>\<rparr>"

definition exRelation :: "string \<Rightarrow> string \<Rightarrow> Relation" where
  "exRelation a b = \<lparr>Provider = a, Target = b, RelationType = ''deploys-to'', Metadata = ''{}''\<rparr>"

definition exProxy :: "unit portalProxy" where
  "exProxy =
     \<lparr>getVersionsData = Inr ''v1'',
      GetSessionStringValue = (\<lambda>c key. if key = ''user_id'' then Inr ''U'' else Inl ''no value''),
      GetUAAUser = (\<lambda>g. if g = ''U'' then Inr exUser else Inl ''no user''),
      Config_CloudFoundryInfo = [],
      Config_PluginConfig = [],
      Diagnostics_p = Some ''diagnostics'',
      Plugins = [exPlugin ''cf'', exPlugin ''k8s'', exPlugin ''helm'', exPlugin [],
                 \<lparr>GetEndpointPlugin = Inl ''not an endpoint plugin''\<rparr>],
      buildCNSIList = (\<lambda>c. ([exCNSI ''A'' ''cf'', exCNSI ''B'' ''k8s''], None)),
      GetCNSIUserAndToken =
        (\<lambda>g u. if g = ''A'' \<and> u = ''U''
                then Some (Some exUser, \<lparr>Metadata_t = ''token'', SystemShared = False\<rparr>)
                else None),
      ListRelations = Inr [exRelation ''A'' ''B''],
      PluginsStatus = Map.empty\<rparr>"

definition exEndpoints :: endpoints where
  "exEndpoints =
     [''cf'' \<mapsto> [''A'' \<mapsto> exDetail ''A'' ''cf''], ''k8s'' \<mapsto> [''B'' \<mapsto> exDetail ''B'' ''k8s'']]"

definition onlyA :: endpoints where
  "onlyA = [''cf'' \<mapsto> [''A'' \<mapsto> exDetail ''A'' ''cf'']]"

text \<open>
  Extensions that do something: one appends to the plugin configuration, one panics when
  it finds a given plugin configuration, one empties the endpoints.
\<close>

definition tagPlugin :: "string \<Rightarrow> unit Plugin" where
  "tagPlugin x =
     \<lparr>GetEndpointPlugin =
        Inr \<lparr>GetType = [],
             UpdateMetadata = (\<lambda>s u c. Some (s\<lparr>PluginConfig := PluginConfig s @ x\<rparr>))\<rparr>\<rparr>"

definition panicOn :: "string \<Rightarrow> unit Plugin" where
  "panicOn x =
     \<lparr>GetEndpointPlugin =
        Inr \<lparr>GetType = [],
             UpdateMetadata = (\<lambda>s u c. if PluginConfig s = x then None else Some s)\<rparr>\<rparr>"

definition wipePlugin :: "unit Plugin" where
  "wipePlugin =
     \<lparr>GetEndpointPlugin =
        Inr \<lparr>GetType = [], UpdateMetadata = (\<lambda>s u c. Some (s\<lparr>Endpoints := Map.empty\<rparr>))\<rparr>\<rparr>"

text \<open>A first page with three endpoints, two of them with the most pages.\<close>

definition exResponse :: CFResponse where
  "exResponse =
     [(''a'', \<lparr>total_pages = 3, resources = []\<rparr>),
      (''b'', \<lparr>total_pages = 5, resources = []\<rparr>),
      (''c'', \<lparr>total_pages = 5, resources = []\<rparr>)]"

text \<open>
  The text of an object with the entries \<open>a\<close>, the string \<open>1\<close>, and \<open>b\<close>, the number
  \<open>1e999\<close> (\<open>CHR 0x22\<close> is the double quote), and what \<^verbatim>\<open>json.Unmarshal\<close> does with
  it: the number is out of the range of \<^verbatim>\<open>float64\<close>, which it reports after it has
  stored both entries, the second as nil. The values of the entries are written as text.
  For any other text this stand-in reports an error and stores nothing.
\<close>

definition overflowMetadata :: string where
  "overflowMetadata =
     ''{'' @ [CHR 0x22] @ ''a'' @ [CHR 0x22] @ '':'' @ [CHR 0x22] @ ''1'' @ [CHR 0x22] @ '','' @
     [CHR 0x22] @ ''b'' @ [CHR 0x22] @ '':1e999}''"

definition goUnmarshal :: "string \<Rightarrow> error option \<times> json_object option" where
  "goUnmarshal text =
     (if text = overflowMetadata then
        (Some ''json: cannot unmarshal number 1e999 into Go value of type float64'',
         Some [(''a'', ''1''), (''b'', ''null'')])
      else (Some ''invalid character'', None))"

lemmas ex_defs = exUnmarshal_def exUser_def exCNSI_def exDetail_def exPlugin_def exRelation_def
  exProxy_def

section \<open>Lemmas on the relation loop\<close>

lemma addRelations_Provides:
  "Provides (addRelations rels g rs) =
     Provides rs @ map provided (filter (\<lambda>r. Provider r = g) rels)"
  by (induction rels arbitrary: rs) (simp_all add: provided_def)

lemma addRelations_Receives:
  "Receives (addRelations rels g rs) =
     Receives rs @ map received (filter (\<lambda>r. Provider r \<noteq> g \<and> Target r = g) rels)"
  by (induction rels arbitrary: rs) (simp_all add: received_def)

lemma lookup_update_ok:
  "ListRelations p = Inr rels \<Longrightarrow>
   lookupEndpoint (snd (updateEndpointsWithRelations p eps)) t g =
     map_option (updateEndpoint rels) (lookupEndpoint eps t g)"
  by (simp add: updateEndpointsWithRelations_def lookupEndpoint_def split: option.splits)

lemma providesOf_updateEndpoint:
  "providesOf (updateEndpoint rels e) =
     providesOf e @ map provided (filter (\<lambda>r. Provider r = GUID (CNSIRecord_e e)) rels)"
  by (simp add: providesOf_def updateEndpoint_def addRelations_Provides split: option.splits)

lemma receivesOf_updateEndpoint:
  "receivesOf (updateEndpoint rels e) =
     receivesOf e @ map received
       (filter (\<lambda>r. Provider r \<noteq> GUID (CNSIRecord_e e) \<and> Target r = GUID (CNSIRecord_e e)) rels)"
  by (simp add: receivesOf_def updateEndpoint_def addRelations_Receives split: option.splits)

section \<open>Lemmas on the loops of getInfo\<close>

lemma set_registeredTypes:
  "set (registeredTypes ps) =
     {t. \<exists>plugin\<in>set ps. \<exists>ep. GetEndpointPlugin plugin = Inr ep \<and> t = GetType ep \<and> t \<noteq> []}"
  by (induction ps) (auto split: sum.splits)

lemma initEndpoints_dom: "dom (initEndpoints ps eps) = dom eps \<union> set (registeredTypes ps)"
  by (induction ps arbitrary: eps) (auto split: sum.splits)

lemma addEndpoints_None_iff:
  "addEndpoints U p u cs eps = None \<longleftrightarrow> (\<exists>cnsi\<in>set cs. CNSIType cnsi \<notin> dom eps)"
proof (induction cs arbitrary: eps)
  case Nil
  show ?case by simp
next
  case (Cons cnsi rest)
  show ?case
  proof (cases "eps (CNSIType cnsi)")
    case None
    then show ?thesis by (auto simp: Let_def)
  next
    case (Some bucket)
    define eps' where "eps' = eps(CNSIType cnsi \<mapsto> bucket(GUID cnsi \<mapsto> newEndpoint U p u cnsi))"
    have d: "dom eps' = dom eps"
      using Some by (auto simp: eps'_def)
    have "addEndpoints U p u (cnsi # rest) eps = addEndpoints U p u rest eps'"
      using Some by (simp add: Let_def eps'_def)
    also have "\<dots> = None \<longleftrightarrow> (\<exists>x\<in>set rest. CNSIType x \<notin> dom eps)"
      using Cons.IH [of eps'] d by simp
    finally show ?thesis
      using Some by auto
  qed
qed

lemma addEndpoints_dom: "addEndpoints U p u cs eps = Some eps' \<Longrightarrow> dom eps' = dom eps"
proof (induction cs arbitrary: eps)
  case Nil
  then show ?case by simp
next
  case (Cons cnsi rest)
  from Cons.prems obtain bucket where b: "eps (CNSIType cnsi) = Some bucket"
    by (cases "eps (CNSIType cnsi)") (simp_all add: Let_def)
  define eps1 where "eps1 = eps(CNSIType cnsi \<mapsto> bucket(GUID cnsi \<mapsto> newEndpoint U p u cnsi))"
  have "addEndpoints U p u rest eps1 = Some eps'"
    using Cons.prems b by (simp add: Let_def eps1_def)
  then have "dom eps' = dom eps1" by (rule Cons.IH)
  moreover have "dom eps1 = dom eps"
    using b by (auto simp: eps1_def)
  ultimately show ?case by simp
qed

lemma updateEndpointsWithRelations_dom: "dom (snd (updateEndpointsWithRelations p eps)) = dom eps"
  by (auto simp: updateEndpointsWithRelations_def dom_def split: sum.splits)

lemma runPlugins_preserves:
  "(\<forall>plugin\<in>set ps. \<forall>ep s s'. GetEndpointPlugin plugin = Inr ep \<longrightarrow>
       UpdateMetadata ep s u c = Some s' \<longrightarrow> f s' = f s) \<Longrightarrow>
   runPlugins ps u c s = Some s' \<Longrightarrow> f s' = f s"
proof (induction ps arbitrary: s)
  case Nil
  then show ?case by simp
next
  case (Cons plugin rest)
  have frame: "\<forall>plugin\<in>set rest. \<forall>ep s s'. GetEndpointPlugin plugin = Inr ep \<longrightarrow>
       UpdateMetadata ep s u c = Some s' \<longrightarrow> f s' = f s"
    using Cons.prems(1) by simp
  show ?case
  proof (cases "GetEndpointPlugin plugin")
    case (Inl err)
    then have "runPlugins rest u c s = Some s'"
      using Cons.prems(2) by simp
    then show ?thesis by (rule Cons.IH [OF frame])
  next
    case (Inr ep)
    with Cons.prems(2) obtain s1 where s1: "UpdateMetadata ep s u c = Some s1"
      and rest: "runPlugins rest u c s1 = Some s'"
      by (auto split: option.splits)
    have "f s1 = f s" using Cons.prems(1) Inr s1 by simp
    moreover have "f s' = f s1" by (rule Cons.IH [OF frame rest])
    ultimately show ?thesis by simp
  qed
qed

lemma runPlugins_returns:
  "(\<forall>plugin\<in>set ps. \<forall>ep s. GetEndpointPlugin plugin = Inr ep \<longrightarrow>
       UpdateMetadata ep s u c \<noteq> None) \<Longrightarrow>
   runPlugins ps u c s \<noteq> None"
proof (induction ps arbitrary: s)
  case Nil
  then show ?case by simp
next
  case (Cons plugin rest)
  have frame: "\<forall>plugin\<in>set rest. \<forall>ep s. GetEndpointPlugin plugin = Inr ep \<longrightarrow>
       UpdateMetadata ep s u c \<noteq> None"
    using Cons.prems by simp
  have rest: "runPlugins rest u c s1 \<noteq> None" for s1
    by (rule Cons.IH [OF frame])
  show ?case
  proof (cases "GetEndpointPlugin plugin")
    case (Inl err)
    then show ?thesis using rest by simp
  next
    case (Inr ep)
    then have "UpdateMetadata ep s u c \<noteq> None"
      using Cons.prems by simp
    then show ?thesis using Inr rest by (auto split: option.splits)
  qed
qed

lemma getInfo_steps:
  assumes "getVersionsData p = Inr versions"
    and "GetSessionStringValue p c ''user_id'' = Inr userGUID"
    and "GetUAAUser p userGUID = Inr uaaUser"
  shows "getInfo U p c =
     (case addEndpoints U p userGUID (fst (buildCNSIList p c)) (initEndpoints (Plugins p) Map.empty) of
        None \<Rightarrow> (Panic NilMapWrite, [])
      | Some endpoints \<Rightarrow>
          (case runPlugins (Plugins p) userGUID c
                  \<lparr>Versions = versions, User = uaaUser,
                   Endpoints = snd (updateEndpointsWithRelations p endpoints),
                   CloudFoundry = Config_CloudFoundryInfo p, PluginConfig = Config_PluginConfig p,
                   Diagnostics = (if Admin uaaUser then Diagnostics_p p else None),
                   Plugins_Info = Map.empty\<rparr> of
             None \<Rightarrow> (Panic PluginPanic, relationWarnings p)
           | Some s \<Rightarrow> (Snapshot (s\<lparr>Plugins_Info := PluginsStatus p\<rparr>), relationWarnings p)))"
proof (cases "ListRelations p")
  case (Inl err)
  then show ?thesis
    unfolding getInfo_def
    by (simp add: assms Let_def relationWarnings_def updateEndpointsWithRelations_def
        split: option.splits)
next
  case (Inr relations)
  then show ?thesis
    unfolding getInfo_def
    by (simp add: assms Let_def relationWarnings_def updateEndpointsWithRelations_def
        split: option.splits)
qed

section \<open>Relations attached to the endpoints\<close>

text \<open>
  Claim C5. A relation with provider \<open>A\<close> and target \<open>B\<close>, \<open>A \<noteq> B\<close>, both endpoints in the
  map: after \<^verbatim>\<open>updateEndpointsWithRelations\<close> the endpoint \<open>A\<close> provides an entry with
  peer \<open>B\<close> and the relation's type and metadata, and \<open>B\<close> receives an entry with peer \<open>A\<close>
  and the same type and metadata.
\<close>

theorem relation_attached_to_both_ends:
  assumes "ListRelations p = Inr relations" and "R \<in> set relations"
    and "Provider R \<noteq> Target R"
    and "lookupEndpoint endpoints tA kA = Some eA" and "GUID (CNSIRecord_e eA) = Provider R"
    and "lookupEndpoint endpoints tB kB = Some eB" and "GUID (CNSIRecord_e eB) = Target R"
  shows "\<exists>eA' eB'.
           lookupEndpoint (snd (updateEndpointsWithRelations p endpoints)) tA kA = Some eA' \<and>
           lookupEndpoint (snd (updateEndpointsWithRelations p endpoints)) tB kB = Some eB' \<and>
           \<lparr>Guid = Target R, RelationType_er = RelationType R, Metadata_er = Metadata R\<rparr>
             \<in> set (providesOf eA') \<and>
           \<lparr>Guid = Provider R, RelationType_er = RelationType R, Metadata_er = Metadata R\<rparr>
             \<in> set (receivesOf eB')"
proof -
  have A: "provided R \<in> set (providesOf (updateEndpoint relations eA))"
    using assms(2,5) by (simp add: providesOf_updateEndpoint)
  have B: "received R \<in> set (receivesOf (updateEndpoint relations eB))"
    using assms(2,3,7) by (simp add: receivesOf_updateEndpoint)
  show ?thesis
    using A B assms(1,4,6) by (simp add: lookup_update_ok provided_def received_def)
qed

text \<open>The scenario of the specification: \<open>A\<close> deploys to \<open>B\<close>.\<close>

theorem relation_attached_to_both_ends_witness:
  "map_option providesOf
     (lookupEndpoint (snd (updateEndpointsWithRelations exProxy exEndpoints)) ''cf'' ''A'') =
     Some [\<lparr>Guid = ''B'', RelationType_er = ''deploys-to'', Metadata_er = ''{}''\<rparr>] \<and>
   map_option receivesOf
     (lookupEndpoint (snd (updateEndpointsWithRelations exProxy exEndpoints)) ''k8s'' ''B'') =
     Some [\<lparr>Guid = ''A'', RelationType_er = ''deploys-to'', Metadata_er = ''{}''\<rparr>]"
proof -
  have rels: "ListRelations exProxy = Inr [exRelation ''A'' ''B'']"
    by (simp add: exProxy_def)
  have mem: "exRelation ''A'' ''B'' \<in> set [exRelation ''A'' ''B'']"
    by simp
  have ne: "Provider (exRelation ''A'' ''B'') \<noteq> Target (exRelation ''A'' ''B'')"
    by (simp add: exRelation_def)
  have a: "lookupEndpoint exEndpoints ''cf'' ''A'' = Some (exDetail ''A'' ''cf'')"
    by (simp add: exEndpoints_def lookupEndpoint_def)
  have ga: "GUID (CNSIRecord_e (exDetail ''A'' ''cf'')) = Provider (exRelation ''A'' ''B'')"
    by (simp add: exDetail_def exCNSI_def exRelation_def)
  have b: "lookupEndpoint exEndpoints ''k8s'' ''B'' = Some (exDetail ''B'' ''k8s'')"
    by (simp add: exEndpoints_def lookupEndpoint_def)
  have gb: "GUID (CNSIRecord_e (exDetail ''B'' ''k8s'')) = Target (exRelation ''A'' ''B'')"
    by (simp add: exDetail_def exCNSI_def exRelation_def)
  from relation_attached_to_both_ends [OF rels mem ne a ga b gb]
  obtain eA' eB' where
    "lookupEndpoint (snd (updateEndpointsWithRelations exProxy exEndpoints)) ''cf'' ''A'' = Some eA'"
    "lookupEndpoint (snd (updateEndpointsWithRelations exProxy exEndpoints)) ''k8s'' ''B'' = Some eB'"
    by blast
  moreover have "map_option providesOf
     (lookupEndpoint (snd (updateEndpointsWithRelations exProxy exEndpoints)) ''cf'' ''A'') =
     Some [\<lparr>Guid = ''B'', RelationType_er = ''deploys-to'', Metadata_er = ''{}''\<rparr>]"
    by (simp add: ex_defs exEndpoints_def updateEndpointsWithRelations_def lookupEndpoint_def updateEndpoint_def
      providesOf_def)
  moreover have "map_option receivesOf
     (lookupEndpoint (snd (updateEndpointsWithRelations exProxy exEndpoints)) ''k8s'' ''B'') =
     Some [\<lparr>Guid = ''A'', RelationType_er = ''deploys-to'', Metadata_er = ''{}''\<rparr>]"
    by (simp add: ex_defs exEndpoints_def updateEndpointsWithRelations_def lookupEndpoint_def updateEndpoint_def
      receivesOf_def)
  ultimately show ?thesis by simp
qed

text \<open>
  Claim C1. A relation whose provider and target are the same endpoint is said to leave one
  entry in that endpoint's \<^verbatim>\<open>Provides\<close> and one in its \<^verbatim>\<open>Receives\<close>. The loop
  tests the target only in the \<^verbatim>\<open>else\<close> branch of the test of the provider, so the
  relation reaches \<^verbatim>\<open>Provides\<close> and never \<^verbatim>\<open>Receives\<close>: with the single endpoint
  \<open>A\<close> and the single relation from \<open>A\<close> to \<open>A\<close>, \<^verbatim>\<open>Receives\<close> stays empty.
\<close>

theorem self_relation_only_in_provides:
  "map_option Relations
     (lookupEndpoint
        (snd (updateEndpointsWithRelations (exProxy\<lparr>ListRelations := Inr [exRelation ''A'' ''A'']\<rparr>) onlyA))
        ''cf'' ''A'') =
   Some (Some \<lparr>Provides = [\<lparr>Guid = ''A'', RelationType_er = ''deploys-to'', Metadata_er = ''{}''\<rparr>],
               Receives = []\<rparr>)"
  by (simp add: ex_defs onlyA_def updateEndpointsWithRelations_def lookupEndpoint_def updateEndpoint_def)

text \<open>
  Claim C2, as stated, fails: a relation whose target \<open>B\<close> is in no bucket still leaves
  its entry with the provider \<open>A\<close>, which is in the map; without the relation the list of
  \<open>A\<close> is empty.
\<close>

theorem dangling_relation_kept_by_present_end:
  "lookupEndpoint onlyA ''k8s'' ''B'' = None \<and>
   map_option providesOf
     (lookupEndpoint
        (snd (updateEndpointsWithRelations (exProxy\<lparr>ListRelations := Inr [exRelation ''A'' ''B'']\<rparr>) onlyA))
        ''cf'' ''A'') =
     Some [\<lparr>Guid = ''B'', RelationType_er = ''deploys-to'', Metadata_er = ''{}''\<rparr>] \<and>
   map_option providesOf
     (lookupEndpoint
        (snd (updateEndpointsWithRelations (exProxy\<lparr>ListRelations := Inr []\<rparr>) onlyA))
        ''cf'' ''A'') = Some []"
  by (simp add: ex_defs onlyA_def updateEndpointsWithRelations_def lookupEndpoint_def updateEndpoint_def
      providesOf_def)

text \<open>
  Claim C2, amended. When the relations are listed, the step reports no error whatever
  endpoints the relations name. A relation leaves the lists of every endpoint that is
  neither its provider nor its target as they are without it, so it is dropped when both
  are gone; an endpoint in the map that is its provider still gets the entry naming the
  target, and one that is its target (and not its provider) the entry naming the provider.
\<close>

theorem dangling_relation_other_endpoints:
  assumes "ListRelations p = Inr (rs1 @ r # rs2)"
  shows "fst (updateEndpointsWithRelations p endpoints) = None \<and>
    (\<forall>t g e. lookupEndpoint endpoints t g = Some e \<longrightarrow>
       GUID (CNSIRecord_e e) \<noteq> Provider r \<longrightarrow> GUID (CNSIRecord_e e) \<noteq> Target r \<longrightarrow>
       lookupEndpoint (snd (updateEndpointsWithRelations p endpoints)) t g =
       lookupEndpoint
         (snd (updateEndpointsWithRelations (p\<lparr>ListRelations := Inr (rs1 @ rs2)\<rparr>) endpoints)) t g) \<and>
    (\<forall>t g e. lookupEndpoint endpoints t g = Some e \<longrightarrow> GUID (CNSIRecord_e e) = Provider r \<longrightarrow>
       (\<exists>e'. lookupEndpoint (snd (updateEndpointsWithRelations p endpoints)) t g = Some e' \<and>
             provided r \<in> set (providesOf e'))) \<and>
    (\<forall>t g e. lookupEndpoint endpoints t g = Some e \<longrightarrow>
       GUID (CNSIRecord_e e) \<noteq> Provider r \<longrightarrow> GUID (CNSIRecord_e e) = Target r \<longrightarrow>
       (\<exists>e'. lookupEndpoint (snd (updateEndpointsWithRelations p endpoints)) t g = Some e' \<and>
             received r \<in> set (receivesOf e')))"
proof -
  have ok: "fst (updateEndpointsWithRelations p endpoints) = None"
    using assms by (simp add: updateEndpointsWithRelations_def)
  have without: "ListRelations (p\<lparr>ListRelations := Inr (rs1 @ rs2)\<rparr>) = Inr (rs1 @ rs2)"
    by simp
  have same: "updateEndpoint (rs1 @ r # rs2) e = updateEndpoint (rs1 @ rs2) e"
    if "GUID (CNSIRecord_e e) \<noteq> Provider r" "GUID (CNSIRecord_e e) \<noteq> Target r" for e
  proof -
    have "addRelations (rs1 @ r # rs2) (GUID (CNSIRecord_e e)) x =
          addRelations (rs1 @ rs2) (GUID (CNSIRecord_e e)) x" for x
      using that by (induction rs1 arbitrary: x) auto
    then show ?thesis by (simp add: updateEndpoint_def)
  qed
  have prov: "provided r \<in> set (providesOf (updateEndpoint (rs1 @ r # rs2) e))"
    if "GUID (CNSIRecord_e e) = Provider r" for e
    using that by (simp add: providesOf_updateEndpoint)
  have recv: "received r \<in> set (receivesOf (updateEndpoint (rs1 @ r # rs2) e))"
    if "GUID (CNSIRecord_e e) \<noteq> Provider r" "GUID (CNSIRecord_e e) = Target r" for e
    using that by (simp add: receivesOf_updateEndpoint)
  have look: "lookupEndpoint (snd (updateEndpointsWithRelations p endpoints)) t g =
      map_option (updateEndpoint (rs1 @ r # rs2)) (lookupEndpoint endpoints t g)" for t g
    by (rule lookup_update_ok [OF assms])
  have look': "lookupEndpoint
      (snd (updateEndpointsWithRelations (p\<lparr>ListRelations := Inr (rs1 @ rs2)\<rparr>) endpoints)) t g =
      map_option (updateEndpoint (rs1 @ rs2)) (lookupEndpoint endpoints t g)" for t g
    by (rule lookup_update_ok [OF without])
  show ?thesis
    unfolding look look'
    using ok same prov recv by (intro conjI allI impI) simp_all
qed

theorem dangling_relation_other_endpoints_witness:
  "fst (updateEndpointsWithRelations (exProxy\<lparr>ListRelations := Inr [exRelation ''A'' ''Z'']\<rparr>) exEndpoints) = None \<and>
   lookupEndpoint
     (snd (updateEndpointsWithRelations (exProxy\<lparr>ListRelations := Inr [exRelation ''A'' ''Z'']\<rparr>) exEndpoints))
     ''k8s'' ''B'' =
   lookupEndpoint
     (snd (updateEndpointsWithRelations (exProxy\<lparr>ListRelations := Inr []\<rparr>) exEndpoints))
     ''k8s'' ''B'' \<and>
   (\<exists>e'. lookupEndpoint
            (snd (updateEndpointsWithRelations (exProxy\<lparr>ListRelations := Inr [exRelation ''A'' ''Z'']\<rparr>) exEndpoints))
            ''cf'' ''A'' = Some e' \<and>
         \<lparr>Guid = ''Z'', RelationType_er = ''deploys-to'', Metadata_er = ''{}''\<rparr> \<in> set (providesOf e'))"
proof -
  let ?p = "exProxy\<lparr>ListRelations := Inr [exRelation ''A'' ''Z'']\<rparr>"
  have rels: "ListRelations ?p = Inr ([] @ exRelation ''A'' ''Z'' # [])"
    by simp
  note T = dangling_relation_other_endpoints [OF rels, of exEndpoints]
  have a: "lookupEndpoint exEndpoints ''cf'' ''A'' = Some (exDetail ''A'' ''cf'')"
    by (simp add: exEndpoints_def lookupEndpoint_def)
  have ga: "GUID (CNSIRecord_e (exDetail ''A'' ''cf'')) = Provider (exRelation ''A'' ''Z'')"
    by (simp add: exDetail_def exCNSI_def exRelation_def)
  have b: "lookupEndpoint exEndpoints ''k8s'' ''B'' = Some (exDetail ''B'' ''k8s'')"
    by (simp add: exEndpoints_def lookupEndpoint_def)
  have gb1: "GUID (CNSIRecord_e (exDetail ''B'' ''k8s'')) \<noteq> Provider (exRelation ''A'' ''Z'')"
    by (simp add: exDetail_def exCNSI_def exRelation_def)
  have gb2: "GUID (CNSIRecord_e (exDetail ''B'' ''k8s'')) \<noteq> Target (exRelation ''A'' ''Z'')"
    by (simp add: exDetail_def exCNSI_def exRelation_def)
  have 1: "fst (updateEndpointsWithRelations ?p exEndpoints) = None"
    using T by (rule conjunct1)
  have 2: "lookupEndpoint (snd (updateEndpointsWithRelations ?p exEndpoints)) ''k8s'' ''B'' =
      lookupEndpoint (snd (updateEndpointsWithRelations (?p\<lparr>ListRelations := Inr ([] @ [])\<rparr>) exEndpoints))
        ''k8s'' ''B''"
    using T b gb1 gb2 by blast
  have 3: "\<exists>e'. lookupEndpoint (snd (updateEndpointsWithRelations ?p exEndpoints)) ''cf'' ''A'' = Some e' \<and>
      provided (exRelation ''A'' ''Z'') \<in> set (providesOf e')"
    using T a ga by blast
  have p: "provided (exRelation ''A'' ''Z'') =
      \<lparr>Guid = ''Z'', RelationType_er = ''deploys-to'', Metadata_er = ''{}''\<rparr>"
    by (simp add: provided_def exRelation_def)
  show ?thesis
    using 1 2 3 by (simp add: p)
qed

section \<open>Diagnostics and the extensions\<close>

text \<open>
  Claim C3, as stated, fails: \<^verbatim>\<open>getInfo\<close> decides on the diagnostics before the
  extensions run and does not look at the field again, so the snapshot of a user who is
  no admin carries the diagnostics that an extension wrote.
\<close>

theorem extension_sets_diagnostics_for_non_admin:
  "GetUAAUser exProxy ''U'' = Inr exUser \<and> Admin exUser = False \<and>
   map_option Diagnostics
     (snapshotOf (fst (getInfo exUnmarshal (exProxy\<lparr>Plugins := Plugins exProxy @ [leakPlugin]\<rparr>) ()))) =
   Some (Some ''leak'')"
  by (simp add: ex_defs leakPlugin_def getInfo_def updateEndpointsWithRelations_def Let_def newEndpoint_def)

text \<open>
  Claim C3, amended. For a user who is no admin, \<^verbatim>\<open>getInfo\<close> itself sets no
  diagnostics: when every extension leaves the field as it finds it, the snapshot returned
  has none.
\<close>

theorem non_admin_diagnostics_absent:
  assumes "GetSessionStringValue p c ''user_id'' = Inr userGUID"
    and "GetUAAUser p userGUID = Inr uaaUser"
    and "\<not> Admin uaaUser"
    and "\<forall>plugin\<in>set (Plugins p). \<forall>ep s s'. GetEndpointPlugin plugin = Inr ep \<longrightarrow>
           UpdateMetadata ep s userGUID c = Some s' \<longrightarrow> Diagnostics s' = Diagnostics s"
    and "getInfo U p c = (Snapshot s, warnings)"
  shows "Diagnostics s = None"
proof -
  obtain versions where v: "getVersionsData p = Inr versions"
    using assms(5) by (cases "getVersionsData p") (simp_all add: getInfo_def)
  note steps = getInfo_steps [OF v assms(1,2), of U]
  from assms(5) obtain endpoints s4 where
    run: "runPlugins (Plugins p) userGUID c
            \<lparr>Versions = versions, User = uaaUser,
             Endpoints = snd (updateEndpointsWithRelations p endpoints),
             CloudFoundry = Config_CloudFoundryInfo p, PluginConfig = Config_PluginConfig p,
             Diagnostics = (if Admin uaaUser then Diagnostics_p p else None),
             Plugins_Info = Map.empty\<rparr> = Some s4"
    and s: "s = s4\<lparr>Plugins_Info := PluginsStatus p\<rparr>"
    unfolding steps by (auto split: option.splits)
  have "Diagnostics s4 = Diagnostics
            \<lparr>Versions = versions, User = uaaUser,
             Endpoints = snd (updateEndpointsWithRelations p endpoints),
             CloudFoundry = Config_CloudFoundryInfo p, PluginConfig = Config_PluginConfig p,
             Diagnostics = (if Admin uaaUser then Diagnostics_p p else None),
             Plugins_Info = Map.empty\<rparr>"
    by (rule runPlugins_preserves [OF assms(4) run])
  then show ?thesis
    using assms(3) s by simp
qed

theorem non_admin_diagnostics_absent_witness:
  "map_option Diagnostics (snapshotOf (fst (getInfo exUnmarshal exProxy ()))) = Some None"
proof -
  have sess: "GetSessionStringValue exProxy () ''user_id'' = Inr ''U''"
    by (simp add: exProxy_def)
  have user: "GetUAAUser exProxy ''U'' = Inr exUser"
    by (simp add: exProxy_def)
  have na: "\<not> Admin exUser"
    by (simp add: exUser_def)
  have frame: "\<forall>plugin\<in>set (Plugins exProxy). \<forall>ep s s'. GetEndpointPlugin plugin = Inr ep \<longrightarrow>
           UpdateMetadata ep s ''U'' () = Some s' \<longrightarrow> Diagnostics s' = Diagnostics s"
    by (auto simp: exProxy_def exPlugin_def)
  obtain s w where run: "getInfo exUnmarshal exProxy () = (Snapshot s, w)"
    by (simp add: ex_defs getInfo_def updateEndpointsWithRelations_def Let_def newEndpoint_def)
  have "Diagnostics s = None"
    by (rule non_admin_diagnostics_absent [OF sess user na frame run])
  then show ?thesis
    by (simp add: run)
qed

lemma runPlugins_stepsFrom:
  "runPlugins plugins userGUID c s = stepsFrom (extensionSteps plugins userGUID c) s"
  by (induction plugins arbitrary: s)
     (auto simp: extensionSteps_def split: sum.splits option.splits)

lemma stepsFrom_Some_iff:
  "stepsFrom steps s = Some s' \<longleftrightarrow>
     (\<exists>ss. length ss = Suc (length steps) \<and> ss ! 0 = s \<and> ss ! length steps = s' \<and>
           (\<forall>i<length steps. (steps ! i) (ss ! i) = Some (ss ! Suc i)))"
proof (induction steps arbitrary: s)
  case Nil
  show ?case
  proof
    assume "stepsFrom [] s = Some s'"
    then have "length [s] = Suc (length ([] :: (Info \<Rightarrow> Info option) list)) \<and> [s] ! 0 = s \<and>
        [s] ! length ([] :: (Info \<Rightarrow> Info option) list) = s'"
      by simp
    then show "\<exists>ss. length ss = Suc (length ([] :: (Info \<Rightarrow> Info option) list)) \<and> ss ! 0 = s \<and>
        ss ! length ([] :: (Info \<Rightarrow> Info option) list) = s' \<and>
        (\<forall>i<length ([] :: (Info \<Rightarrow> Info option) list). ([] ! i) (ss ! i) = Some (ss ! Suc i))"
      by (intro exI [of _ "[s]"]) simp
  next
    assume "\<exists>ss. length ss = Suc (length ([] :: (Info \<Rightarrow> Info option) list)) \<and> ss ! 0 = s \<and>
        ss ! length ([] :: (Info \<Rightarrow> Info option) list) = s' \<and>
        (\<forall>i<length ([] :: (Info \<Rightarrow> Info option) list). ([] ! i) (ss ! i) = Some (ss ! Suc i))"
    then show "stepsFrom [] s = Some s'" by auto
  qed
next
  case (Cons step rest)
  show ?case
  proof
    assume run: "stepsFrom (step # rest) s = Some s'"
    then obtain s1 where s1: "step s = Some s1" and rest: "stepsFrom rest s1 = Some s'"
      by (auto split: option.splits)
    from rest obtain ss1 where ss1: "length ss1 = Suc (length rest)" "ss1 ! 0 = s1"
        "ss1 ! length rest = s'" "\<forall>i<length rest. (rest ! i) (ss1 ! i) = Some (ss1 ! Suc i)"
      using Cons.IH [of s1] by auto
    have "\<forall>i<length (step # rest). ((step # rest) ! i) ((s # ss1) ! i) = Some ((s # ss1) ! Suc i)"
    proof (intro allI impI)
      fix i
      assume "i < length (step # rest)"
      then show "((step # rest) ! i) ((s # ss1) ! i) = Some ((s # ss1) ! Suc i)"
        using s1 ss1 by (cases i) auto
    qed
    then show "\<exists>ss. length ss = Suc (length (step # rest)) \<and> ss ! 0 = s \<and>
        ss ! length (step # rest) = s' \<and>
        (\<forall>i<length (step # rest). ((step # rest) ! i) (ss ! i) = Some (ss ! Suc i))"
      using ss1 by (intro exI [of _ "s # ss1"]) simp
  next
    assume "\<exists>ss. length ss = Suc (length (step # rest)) \<and> ss ! 0 = s \<and>
        ss ! length (step # rest) = s' \<and>
        (\<forall>i<length (step # rest). ((step # rest) ! i) (ss ! i) = Some (ss ! Suc i))"
    then obtain ss where ss: "length ss = Suc (length (step # rest))" "ss ! 0 = s"
        "ss ! length (step # rest) = s'"
        "\<forall>i<length (step # rest). ((step # rest) ! i) (ss ! i) = Some (ss ! Suc i)"
      by blast
    from ss(1) obtain x ss1 where c: "ss = x # ss1"
      by (cases ss) auto
    have x: "x = s" using ss(2) c by simp
    have first: "step s = Some (ss1 ! 0)"
      using ss(4) [rule_format, of 0] c x by simp
    have later: "\<forall>i<length rest. (rest ! i) (ss1 ! i) = Some (ss1 ! Suc i)"
    proof (intro allI impI)
      fix i
      assume "i < length rest"
      then show "(rest ! i) (ss1 ! i) = Some (ss1 ! Suc i)"
        using ss(4) [rule_format, of "Suc i"] c by simp
    qed
    have "stepsFrom rest (ss1 ! 0) = Some s'"
      unfolding Cons.IH [of "ss1 ! 0"]
      using ss(1,3) c later by (intro exI [of _ ss1]) simp
    then show "stepsFrom (step # rest) s = Some s'"
      using first by simp
  qed
qed

lemma stepsFrom_None_iff:
  "stepsFrom steps s = None \<longleftrightarrow>
     (\<exists>k<length steps. \<exists>ss. length ss = Suc k \<and> ss ! 0 = s \<and>
           (\<forall>i<k. (steps ! i) (ss ! i) = Some (ss ! Suc i)) \<and> (steps ! k) (ss ! k) = None)"
proof (induction steps arbitrary: s)
  case Nil
  show ?case by simp
next
  case (Cons step rest)
  show ?case
  proof
    assume run: "stepsFrom (step # rest) s = None"
    show "\<exists>k<length (step # rest). \<exists>ss. length ss = Suc k \<and> ss ! 0 = s \<and>
           (\<forall>i<k. ((step # rest) ! i) (ss ! i) = Some (ss ! Suc i)) \<and>
           ((step # rest) ! k) (ss ! k) = None"
    proof (cases "step s")
      case None
      then show ?thesis
        by (intro exI [of _ 0] conjI exI [of _ "[s]"]) simp_all
    next
      case (Some s1)
      then have "stepsFrom rest s1 = None" using run by simp
      then obtain k ss1 where k: "k < length rest" "length ss1 = Suc k" "ss1 ! 0 = s1"
          "\<forall>i<k. (rest ! i) (ss1 ! i) = Some (ss1 ! Suc i)" "(rest ! k) (ss1 ! k) = None"
        using Cons.IH [of s1] by auto
      have "\<forall>i<Suc k. ((step # rest) ! i) ((s # ss1) ! i) = Some ((s # ss1) ! Suc i)"
      proof (intro allI impI)
        fix i
        assume "i < Suc k"
        then show "((step # rest) ! i) ((s # ss1) ! i) = Some ((s # ss1) ! Suc i)"
          using Some k by (cases i) auto
      qed
      then show ?thesis
        using k by (intro exI [of _ "Suc k"] conjI exI [of _ "s # ss1"]) simp_all
    qed
  next
    assume "\<exists>k<length (step # rest). \<exists>ss. length ss = Suc k \<and> ss ! 0 = s \<and>
           (\<forall>i<k. ((step # rest) ! i) (ss ! i) = Some (ss ! Suc i)) \<and>
           ((step # rest) ! k) (ss ! k) = None"
    then obtain k ss where k: "k < length (step # rest)" "length ss = Suc k" "ss ! 0 = s"
        "\<forall>i<k. ((step # rest) ! i) (ss ! i) = Some (ss ! Suc i)"
        "((step # rest) ! k) (ss ! k) = None"
      by blast
    show "stepsFrom (step # rest) s = None"
    proof (cases k)
      case 0
      then show ?thesis using k by simp
    next
      case (Suc j)
      from k(2) obtain x ss1 where c: "ss = x # ss1"
        by (cases ss) auto
      have x: "x = s" using k(3) c by simp
      have first: "step s = Some (ss1 ! 0)"
        using k(4) [rule_format, of 0] c x Suc by simp
      have later: "\<forall>i<j. (rest ! i) (ss1 ! i) = Some (ss1 ! Suc i)"
      proof (intro allI impI)
        fix i
        assume "i < j"
        then show "(rest ! i) (ss1 ! i) = Some (ss1 ! Suc i)"
          using k(4) [rule_format, of "Suc i"] c Suc by simp
      qed
      have "stepsFrom rest (ss1 ! 0) = None"
        unfolding Cons.IH [of "ss1 ! 0"]
        using k(1,2,5) c Suc later by (intro exI [of _ j] conjI exI [of _ ss1]) simp_all
      then show ?thesis
        using first by simp
    qed
  qed
qed

text \<open>
  Claim C4, as stated, fails. \<^verbatim>\<open>UpdateMetadata\<close> hands \<^verbatim>\<open>getInfo\<close> no error, so the
  only way for the step to fail is a panic, and \<^verbatim>\<open>getInfo\<close> has no \<^verbatim>\<open>recover\<close>:
  with an extension that panics in front of the others, the call ends in the panic and
  returns no snapshot.
\<close>

theorem extension_panic_aborts_getInfo:
  "fst (getInfo exUnmarshal (exProxy\<lparr>Plugins := panicPlugin # Plugins exProxy\<rparr>) ()) = Panic PluginPanic \<and>
   snapshotOf (fst (getInfo exUnmarshal (exProxy\<lparr>Plugins := panicPlugin # Plugins exProxy\<rparr>) ())) = None"
  by (simp add: ex_defs panicPlugin_def getInfo_def updateEndpointsWithRelations_def Let_def newEndpoint_def)

text \<open>
  Claim C4, amended. For a request that reaches the extensions, \<^verbatim>\<open>getInfo\<close> runs the
  \<^verbatim>\<open>UpdateMetadata\<close> steps one after the other, in the order of \<^verbatim>\<open>p.Plugins\<close>, the
  first on the snapshot that holds the endpoints with their relations and each later one
  on the snapshot the step before left, and returns what the last one leaves: a snapshot
  whenever every step returns. A step that panics on the snapshot it gets is not recovered
  from: the call ends in the panic and the later steps do not run. Below, \<open>ss\<close> is the
  sequence of the snapshots between the steps.
\<close>

theorem getInfo_runs_extension_steps:
  assumes "getVersionsData p = Inr versions"
    and "GetSessionStringValue p c ''user_id'' = Inr userGUID"
    and "GetUAAUser p userGUID = Inr uaaUser"
    and "addEndpoints U p userGUID (fst (buildCNSIList p c)) (initEndpoints (Plugins p) Map.empty) =
           Some endpoints"
    and "steps = extensionSteps (Plugins p) userGUID c"
    and "s0 = \<lparr>Versions = versions, User = uaaUser,
               Endpoints = snd (updateEndpointsWithRelations p endpoints),
               CloudFoundry = Config_CloudFoundryInfo p, PluginConfig = Config_PluginConfig p,
               Diagnostics = (if Admin uaaUser then Diagnostics_p p else None),
               Plugins_Info = Map.empty\<rparr>"
  shows "(fst (getInfo U p c) = Snapshot s \<longleftrightarrow>
           (\<exists>ss. length ss = Suc (length steps) \<and> ss ! 0 = s0 \<and>
                 (\<forall>i<length steps. (steps ! i) (ss ! i) = Some (ss ! Suc i)) \<and>
                 s = (ss ! length steps)\<lparr>Plugins_Info := PluginsStatus p\<rparr>)) \<and>
         (fst (getInfo U p c) = Panic PluginPanic \<longleftrightarrow>
           (\<exists>k<length steps. \<exists>ss. length ss = Suc k \<and> ss ! 0 = s0 \<and>
                 (\<forall>i<k. (steps ! i) (ss ! i) = Some (ss ! Suc i)) \<and>
                 (steps ! k) (ss ! k) = None)) \<and>
         ((\<forall>plugin\<in>set (Plugins p). \<forall>ep s. GetEndpointPlugin plugin = Inr ep \<longrightarrow>
              UpdateMetadata ep s userGUID c \<noteq> None) \<longrightarrow>
            (\<exists>s. fst (getInfo U p c) = Snapshot s))"
proof -
  have g: "fst (getInfo U p c) =
        (case stepsFrom steps s0 of
           None \<Rightarrow> Panic PluginPanic
         | Some s \<Rightarrow> Snapshot (s\<lparr>Plugins_Info := PluginsStatus p\<rparr>))"
    unfolding getInfo_steps [OF assms(1,2,3), of U] assms(5,6) runPlugins_stepsFrom [symmetric]
    by (simp add: assms(4) split: option.splits)
  have 1: "fst (getInfo U p c) = Snapshot s \<longleftrightarrow>
           (\<exists>ss. length ss = Suc (length steps) \<and> ss ! 0 = s0 \<and>
                 (\<forall>i<length steps. (steps ! i) (ss ! i) = Some (ss ! Suc i)) \<and>
                 s = (ss ! length steps)\<lparr>Plugins_Info := PluginsStatus p\<rparr>)"
  proof -
    have "fst (getInfo U p c) = Snapshot s \<longleftrightarrow>
        (\<exists>s'. stepsFrom steps s0 = Some s' \<and> s = s'\<lparr>Plugins_Info := PluginsStatus p\<rparr>)"
      unfolding g by (auto split: option.splits)
    also have "\<dots> \<longleftrightarrow> (\<exists>ss. length ss = Suc (length steps) \<and> ss ! 0 = s0 \<and>
                 (\<forall>i<length steps. (steps ! i) (ss ! i) = Some (ss ! Suc i)) \<and>
                 s = (ss ! length steps)\<lparr>Plugins_Info := PluginsStatus p\<rparr>)"
      unfolding stepsFrom_Some_iff by blast
    finally show ?thesis .
  qed
  have 2: "fst (getInfo U p c) = Panic PluginPanic \<longleftrightarrow>
           (\<exists>k<length steps. \<exists>ss. length ss = Suc k \<and> ss ! 0 = s0 \<and>
                 (\<forall>i<k. (steps ! i) (ss ! i) = Some (ss ! Suc i)) \<and>
                 (steps ! k) (ss ! k) = None)"
  proof -
    have "fst (getInfo U p c) = Panic PluginPanic \<longleftrightarrow> stepsFrom steps s0 = None"
      unfolding g by (auto split: option.splits)
    then show ?thesis
      unfolding stepsFrom_None_iff .
  qed
  have 3: "(\<forall>plugin\<in>set (Plugins p). \<forall>ep s. GetEndpointPlugin plugin = Inr ep \<longrightarrow>
              UpdateMetadata ep s userGUID c \<noteq> None) \<longrightarrow>
            (\<exists>s. fst (getInfo U p c) = Snapshot s)"
  proof
    assume "\<forall>plugin\<in>set (Plugins p). \<forall>ep s. GetEndpointPlugin plugin = Inr ep \<longrightarrow>
              UpdateMetadata ep s userGUID c \<noteq> None"
    then have "runPlugins (Plugins p) userGUID c s0 \<noteq> None"
      by (rule runPlugins_returns)
    then show "\<exists>s. fst (getInfo U p c) = Snapshot s"
      unfolding g assms(5) runPlugins_stepsFrom by (auto split: option.splits)
  qed
  from 1 2 3 show ?thesis by (intro conjI)
qed

text \<open>
  Two steps that append to the plugin configuration leave \<open>12\<close>, in that order; a step
  between them that panics when it finds \<open>1\<close> ends the call.
\<close>

theorem getInfo_runs_extension_steps_witness:
  "map_option PluginConfig
     (snapshotOf (fst (getInfo exUnmarshal
        (exProxy\<lparr>Plugins := [exPlugin ''cf'', exPlugin ''k8s'', tagPlugin ''1'', tagPlugin ''2'']\<rparr>) ()))) =
     Some ''12'' \<and>
   fst (getInfo exUnmarshal
        (exProxy\<lparr>Plugins := [exPlugin ''cf'', exPlugin ''k8s'', tagPlugin ''1'', panicOn ''1'',
                              tagPlugin ''2'']\<rparr>) ()) = Panic PluginPanic"
proof -
  let ?q = "exProxy\<lparr>Plugins := [exPlugin ''cf'', exPlugin ''k8s'', tagPlugin ''1'', tagPlugin ''2'']\<rparr>"
  let ?r = "exProxy\<lparr>Plugins := [exPlugin ''cf'', exPlugin ''k8s'', tagPlugin ''1'', panicOn ''1'',
                              tagPlugin ''2'']\<rparr>"
  have v: "getVersionsData ?q = Inr ''v1''" and v': "getVersionsData ?r = Inr ''v1''"
    by (simp_all add: exProxy_def)
  have sess: "GetSessionStringValue ?q () ''user_id'' = Inr ''U''"
    and sess': "GetSessionStringValue ?r () ''user_id'' = Inr ''U''"
    by (simp_all add: exProxy_def)
  have user: "GetUAAUser ?q ''U'' = Inr exUser" and user': "GetUAAUser ?r ''U'' = Inr exUser"
    by (simp_all add: exProxy_def)
  obtain eps where eps: "addEndpoints exUnmarshal ?q ''U'' (fst (buildCNSIList ?q ()))
      (initEndpoints (Plugins ?q) Map.empty) = Some eps"
    by (simp add: ex_defs tagPlugin_def Let_def)
  obtain eps' where eps': "addEndpoints exUnmarshal ?r ''U'' (fst (buildCNSIList ?r ()))
      (initEndpoints (Plugins ?r) Map.empty) = Some eps'"
    by (simp add: ex_defs tagPlugin_def panicOn_def Let_def)
  define s0 where "s0 = \<lparr>Versions = ''v1'', User = exUser,
               Endpoints = snd (updateEndpointsWithRelations ?q eps),
               CloudFoundry = Config_CloudFoundryInfo ?q, PluginConfig = Config_PluginConfig ?q,
               Diagnostics = (if Admin exUser then Diagnostics_p ?q else None),
               Plugins_Info = Map.empty\<rparr>"
  define s0' where "s0' = \<lparr>Versions = ''v1'', User = exUser,
               Endpoints = snd (updateEndpointsWithRelations ?r eps'),
               CloudFoundry = Config_CloudFoundryInfo ?r, PluginConfig = Config_PluginConfig ?r,
               Diagnostics = (if Admin exUser then Diagnostics_p ?r else None),
               Plugins_Info = Map.empty\<rparr>"
  have cfg: "PluginConfig s0 = []" "PluginConfig s0' = []"
    by (simp_all add: s0_def s0'_def exProxy_def)
  have steps: "extensionSteps (Plugins ?q) ''U'' () =
      [\<lambda>s. Some s, \<lambda>s. Some s, \<lambda>s. Some (s\<lparr>PluginConfig := PluginConfig s @ ''1''\<rparr>),
       \<lambda>s. Some (s\<lparr>PluginConfig := PluginConfig s @ ''2''\<rparr>)]"
    by (simp add: extensionSteps_def exPlugin_def tagPlugin_def)
  have steps': "extensionSteps (Plugins ?r) ''U'' () =
      [\<lambda>s. Some s, \<lambda>s. Some s, \<lambda>s. Some (s\<lparr>PluginConfig := PluginConfig s @ ''1''\<rparr>),
       \<lambda>s. if PluginConfig s = ''1'' then None else Some s,
       \<lambda>s. Some (s\<lparr>PluginConfig := PluginConfig s @ ''2''\<rparr>)]"
    by (simp add: extensionSteps_def exPlugin_def tagPlugin_def panicOn_def)
  note T = getInfo_runs_extension_steps [OF v sess user eps refl s0_def, of "(s0\<lparr>PluginConfig := ''12''\<rparr>)\<lparr>Plugins_Info := PluginsStatus ?q\<rparr>"]
  note T' = getInfo_runs_extension_steps [OF v' sess' user' eps' refl s0'_def]
  have trace: "\<exists>ss. length ss = Suc (length (extensionSteps (Plugins ?q) ''U'' ())) \<and> ss ! 0 = s0 \<and>
      (\<forall>i<length (extensionSteps (Plugins ?q) ''U'' ()).
          (extensionSteps (Plugins ?q) ''U'' () ! i) (ss ! i) = Some (ss ! Suc i)) \<and>
      (s0\<lparr>PluginConfig := ''12''\<rparr>)\<lparr>Plugins_Info := PluginsStatus ?q\<rparr> =
        (ss ! length (extensionSteps (Plugins ?q) ''U'' ()))\<lparr>Plugins_Info := PluginsStatus ?q\<rparr>"
    unfolding steps
    by (intro exI [of _ "[s0, s0, s0, s0\<lparr>PluginConfig := ''1''\<rparr>, s0\<lparr>PluginConfig := ''12''\<rparr>]"])
       (simp add: All_less_Suc cfg)
  have 1: "fst (getInfo exUnmarshal ?q ()) =
      Snapshot ((s0\<lparr>PluginConfig := ''12''\<rparr>)\<lparr>Plugins_Info := PluginsStatus ?q\<rparr>)"
    using T [THEN conjunct1] trace by (rule iffD2)
  have trace': "\<exists>k<length (extensionSteps (Plugins ?r) ''U'' ()). \<exists>ss. length ss = Suc k \<and> ss ! 0 = s0' \<and>
      (\<forall>i<k. (extensionSteps (Plugins ?r) ''U'' () ! i) (ss ! i) = Some (ss ! Suc i)) \<and>
      (extensionSteps (Plugins ?r) ''U'' () ! k) (ss ! k) = None"
    unfolding steps'
    by (intro exI [of _ "Suc (Suc (Suc 0))"] conjI
          exI [of _ "[s0', s0', s0', s0'\<lparr>PluginConfig := ''1''\<rparr>]"])
       (simp_all add: All_less_Suc cfg)
  have 2: "fst (getInfo exUnmarshal ?r ()) = Panic PluginPanic"
    using T' [THEN conjunct2, THEN conjunct1] trace' by (rule iffD2)
  show ?thesis
    unfolding 1 2 by simp
qed

section \<open>Buckets, endpoints and the relations step in getInfo\<close>




text \<open>
  Claim C6, as stated, fails: the buckets are made before the extensions run, and nothing
  looks at them afterwards. With an extension that empties the endpoints, the snapshot
  returned has no bucket for \<open>helm\<close>, the tag of a registered plugin.
\<close>

theorem extension_removes_bucket:
  "exPlugin ''helm'' \<in> set (Plugins (exProxy\<lparr>Plugins := Plugins exProxy @ [wipePlugin]\<rparr>)) \<and>
   map_sum id GetType (GetEndpointPlugin (exPlugin ''helm'')) = Inr ''helm'' \<and>
   map_option (\<lambda>s. Endpoints s ''helm'')
     (snapshotOf (fst (getInfo exUnmarshal (exProxy\<lparr>Plugins := Plugins exProxy @ [wipePlugin]\<rparr>) ()))) =
     Some None"
  by (simp add: ex_defs wipePlugin_def getInfo_def updateEndpointsWithRelations_def Let_def
      newEndpoint_def)

text \<open>
  Claim C6, amended. When every extension leaves the set of buckets as it finds it, the
  snapshot that \<^verbatim>\<open>getInfo\<close> returns has a bucket for the type tag of every registered
  endpoint plugin whose tag is not empty, whatever endpoints there are (none of that type
  included), and none for the empty tag: its buckets are exactly the non-empty tags.
\<close>

theorem getInfo_buckets:
  assumes "getInfo U p c = (Snapshot s, warnings)"
    and "GetSessionStringValue p c ''user_id'' = Inr userGUID"
    and "\<forall>plugin\<in>set (Plugins p). \<forall>ep s s'. GetEndpointPlugin plugin = Inr ep \<longrightarrow>
           UpdateMetadata ep s userGUID c = Some s' \<longrightarrow> dom (Endpoints s') = dom (Endpoints s)"
  shows "(\<forall>plugin\<in>set (Plugins p). \<forall>ep. GetEndpointPlugin plugin = Inr ep \<longrightarrow>
            GetType ep \<noteq> [] \<longrightarrow> GetType ep \<in> dom (Endpoints s)) \<and>
         [] \<notin> dom (Endpoints s) \<and>
         dom (Endpoints s) =
           {t. t \<noteq> [] \<and> (\<exists>plugin\<in>set (Plugins p). \<exists>ep. GetEndpointPlugin plugin = Inr ep \<and> GetType ep = t)}"
proof -
  obtain versions where v: "getVersionsData p = Inr versions"
    using assms(1) by (cases "getVersionsData p") (simp_all add: getInfo_def)
  obtain uaaUser where u: "GetUAAUser p userGUID = Inr uaaUser"
    using assms(1) v assms(2) by (cases "GetUAAUser p userGUID") (simp_all add: getInfo_def)
  note steps = getInfo_steps [OF v assms(2) u, of U]
  from assms(1) obtain endpoints s4 where
    add: "addEndpoints U p userGUID (fst (buildCNSIList p c)) (initEndpoints (Plugins p) Map.empty) =
            Some endpoints"
    and run: "runPlugins (Plugins p) userGUID c
            \<lparr>Versions = versions, User = uaaUser,
             Endpoints = snd (updateEndpointsWithRelations p endpoints),
             CloudFoundry = Config_CloudFoundryInfo p, PluginConfig = Config_PluginConfig p,
             Diagnostics = (if Admin uaaUser then Diagnostics_p p else None),
             Plugins_Info = Map.empty\<rparr> = Some s4"
    and s: "s = s4\<lparr>Plugins_Info := PluginsStatus p\<rparr>"
    unfolding steps by (auto split: option.splits)
  have "dom (Endpoints s4) = dom (Endpoints
            \<lparr>Versions = versions, User = uaaUser,
             Endpoints = snd (updateEndpointsWithRelations p endpoints),
             CloudFoundry = Config_CloudFoundryInfo p, PluginConfig = Config_PluginConfig p,
             Diagnostics = (if Admin uaaUser then Diagnostics_p p else None),
             Plugins_Info = Map.empty\<rparr>)"
    by (rule runPlugins_preserves [where f = "\<lambda>s. dom (Endpoints s)", OF assms(3) run])
  then have "dom (Endpoints s) = dom endpoints"
    by (simp add: s updateEndpointsWithRelations_dom)
  also have "\<dots> = dom (initEndpoints (Plugins p) Map.empty)"
    by (rule addEndpoints_dom [OF add])
  also have "\<dots> = set (registeredTypes (Plugins p))"
    by (simp add: initEndpoints_dom)
  finally have d: "dom (Endpoints s) =
      {t. \<exists>plugin\<in>set (Plugins p). \<exists>ep. GetEndpointPlugin plugin = Inr ep \<and> t = GetType ep \<and> t \<noteq> []}"
    by (simp add: set_registeredTypes)
  have a: "\<forall>plugin\<in>set (Plugins p). \<forall>ep. GetEndpointPlugin plugin = Inr ep \<longrightarrow>
            GetType ep \<noteq> [] \<longrightarrow> GetType ep \<in> dom (Endpoints s)"
    unfolding d by auto
  have b: "[] \<notin> dom (Endpoints s)"
    unfolding d by simp
  have c: "dom (Endpoints s) =
           {t. t \<noteq> [] \<and> (\<exists>plugin\<in>set (Plugins p). \<exists>ep. GetEndpointPlugin plugin = Inr ep \<and> GetType ep = t)}"
    unfolding d by auto
  from a b c show ?thesis by (intro conjI)
qed

text \<open>No endpoint has type \<open>helm\<close>: the bucket is there, and empty.\<close>

theorem getInfo_buckets_witness:
  "map_option (\<lambda>s. Endpoints s ''helm'') (snapshotOf (fst (getInfo exUnmarshal exProxy ()))) =
     Some (Some Map.empty) \<and>
   map_option (\<lambda>s. Endpoints s []) (snapshotOf (fst (getInfo exUnmarshal exProxy ()))) = Some None"
proof -
  have sess: "GetSessionStringValue exProxy () ''user_id'' = Inr ''U''"
    by (simp add: exProxy_def)
  have frame: "\<forall>plugin\<in>set (Plugins exProxy). \<forall>ep s s'. GetEndpointPlugin plugin = Inr ep \<longrightarrow>
           UpdateMetadata ep s ''U'' () = Some s' \<longrightarrow> dom (Endpoints s') = dom (Endpoints s)"
    by (auto simp: exProxy_def exPlugin_def)
  obtain s w where run: "getInfo exUnmarshal exProxy () = (Snapshot s, w)"
    by (simp add: ex_defs getInfo_def updateEndpointsWithRelations_def Let_def newEndpoint_def)
  have helm: "exPlugin ''helm'' \<in> set (Plugins exProxy)"
    by (simp add: exProxy_def)
  have ep: "GetEndpointPlugin (exPlugin ''helm'') =
      Inr \<lparr>GetType = ''helm'', UpdateMetadata = (\<lambda>s u c. Some s)\<rparr>"
    by (simp add: exPlugin_def)
  note T = getInfo_buckets [OF run sess frame]
  have "GetType \<lparr>GetType = ''helm'', UpdateMetadata = (\<lambda>s (u::string) (c::unit). Some s)\<rparr>
      \<in> dom (Endpoints s)"
    using T [THEN conjunct1, rule_format, OF helm ep] by simp
  then have 1: "''helm'' \<in> dom (Endpoints s)" by simp
  have 2: "[] \<notin> dom (Endpoints s)" using T by (rule conjunct2 [THEN conjunct1])
  have 3: "map_option (\<lambda>s. Endpoints s ''helm'') (snapshotOf (fst (getInfo exUnmarshal exProxy ()))) =
     Some (Some Map.empty)"
    by (simp add: ex_defs getInfo_def updateEndpointsWithRelations_def Let_def newEndpoint_def)
  show ?thesis
    using 2 3 by (simp add: run domIff)
qed

text \<open>
  Claim C7. Once the version, the session and the user are found, \<^verbatim>\<open>getInfo\<close> ends
  in the write into a nil map exactly when some listed endpoint has a type that is not
  the non-empty type tag of a registered endpoint plugin; so it returns a snapshot only
  if every listed endpoint has such a type.
\<close>

theorem getInfo_nil_map_write:
  assumes "getVersionsData p = Inr versions"
    and "GetSessionStringValue p c ''user_id'' = Inr userGUID"
    and "GetUAAUser p userGUID = Inr uaaUser"
  shows "(fst (getInfo U p c) = Panic NilMapWrite \<longleftrightarrow>
           (\<exists>cnsi\<in>set (fst (buildCNSIList p c)).
              \<not> (\<exists>plugin\<in>set (Plugins p). \<exists>ep. GetEndpointPlugin plugin = Inr ep \<and>
                    GetType ep \<noteq> [] \<and> GetType ep = CNSIType cnsi))) \<and>
         ((\<exists>s. fst (getInfo U p c) = Snapshot s) \<longrightarrow>
           (\<forall>cnsi\<in>set (fst (buildCNSIList p c)).
              \<exists>plugin\<in>set (Plugins p). \<exists>ep. GetEndpointPlugin plugin = Inr ep \<and>
                    GetType ep \<noteq> [] \<and> GetType ep = CNSIType cnsi))"
proof -
  let ?add = "addEndpoints U p userGUID (fst (buildCNSIList p c)) (initEndpoints (Plugins p) Map.empty)"
  have types: "t \<in> dom (initEndpoints (Plugins p) Map.empty) \<longleftrightarrow>
      (\<exists>plugin\<in>set (Plugins p). \<exists>ep. GetEndpointPlugin plugin = Inr ep \<and>
         GetType ep \<noteq> [] \<and> GetType ep = t)" for t
    unfolding initEndpoints_dom set_registeredTypes by auto
  have none: "?add = None \<longleftrightarrow>
      (\<exists>cnsi\<in>set (fst (buildCNSIList p c)).
         \<not> (\<exists>plugin\<in>set (Plugins p). \<exists>ep. GetEndpointPlugin plugin = Inr ep \<and>
               GetType ep \<noteq> [] \<and> GetType ep = CNSIType cnsi))"
    unfolding addEndpoints_None_iff types ..
  have panic: "fst (getInfo U p c) = Panic NilMapWrite \<longleftrightarrow> ?add = None"
    unfolding getInfo_steps [OF assms, of U] by (simp split: option.splits)
  have snap: "(\<exists>s. fst (getInfo U p c) = Snapshot s) \<longrightarrow> ?add \<noteq> None"
    unfolding getInfo_steps [OF assms, of U] by (simp split: option.splits)
  have one: "fst (getInfo U p c) = Panic NilMapWrite \<longleftrightarrow>
           (\<exists>cnsi\<in>set (fst (buildCNSIList p c)).
              \<not> (\<exists>plugin\<in>set (Plugins p). \<exists>ep. GetEndpointPlugin plugin = Inr ep \<and>
                    GetType ep \<noteq> [] \<and> GetType ep = CNSIType cnsi))"
    using none panic by simp
  have two: "(\<exists>s. fst (getInfo U p c) = Snapshot s) \<longrightarrow>
           (\<forall>cnsi\<in>set (fst (buildCNSIList p c)).
              \<exists>plugin\<in>set (Plugins p). \<exists>ep. GetEndpointPlugin plugin = Inr ep \<and>
                    GetType ep \<noteq> [] \<and> GetType ep = CNSIType cnsi)"
  proof
    assume "\<exists>s. fst (getInfo U p c) = Snapshot s"
    with snap have "?add \<noteq> None" by simp
    with none show "\<forall>cnsi\<in>set (fst (buildCNSIList p c)).
              \<exists>plugin\<in>set (Plugins p). \<exists>ep. GetEndpointPlugin plugin = Inr ep \<and>
                    GetType ep \<noteq> [] \<and> GetType ep = CNSIType cnsi"
      by simp
  qed
  from one two show ?thesis by (rule conjI)
qed

text \<open>An endpoint of type \<open>metrics\<close>, for which no plugin is registered.\<close>

theorem getInfo_nil_map_write_witness:
  "fst (getInfo exUnmarshal
          (exProxy\<lparr>buildCNSIList := \<lambda>c. ([exCNSI ''A'' ''cf'', exCNSI ''M'' ''metrics''], None)\<rparr>) ()) =
     Panic NilMapWrite"
proof -
  let ?q = "exProxy\<lparr>buildCNSIList := \<lambda>c. ([exCNSI ''A'' ''cf'', exCNSI ''M'' ''metrics''], None)\<rparr>"
  have v: "getVersionsData ?q = Inr ''v1''"
    by (simp add: exProxy_def)
  have sess: "GetSessionStringValue ?q () ''user_id'' = Inr ''U''"
    by (simp add: exProxy_def)
  have user: "GetUAAUser ?q ''U'' = Inr exUser"
    by (simp add: exProxy_def)
  have bad: "\<exists>cnsi\<in>set (fst (buildCNSIList ?q ())).
              \<not> (\<exists>plugin\<in>set (Plugins ?q). \<exists>ep. GetEndpointPlugin plugin = Inr ep \<and>
                    GetType ep \<noteq> [] \<and> GetType ep = CNSIType cnsi)"
    by (simp add: exProxy_def exPlugin_def exCNSI_def)
  show ?thesis
    using getInfo_nil_map_write [OF v sess user, of exUnmarshal, THEN conjunct1] bad by (rule iffD2)
qed




section \<open>The endpoint metadata\<close>

lemma strings_Index_brace:
  "strings_Index s ''{'' = 0 \<longleftrightarrow> s \<noteq> [] \<and> hd s = CHR ''{''"
proof (cases s)
  case Nil
  then show ?thesis by simp
next
  case (Cons c t)
  have "strings_Index t ''{'' < 0 \<or> strings_Index t ''{'' + 1 \<noteq> 0 \<and> - 1 \<noteq> (0::int)"
    by arith
  then show ?thesis
    using Cons by (auto simp: Let_def)
qed

text \<open>
  Claim C10, as stated, fails in what it says of a failed decoding. For an object with
  the entries \<open>a\<close>, a string, and \<open>b\<close>, the number \<open>1e999\<close>, the decoder stores both
  entries, the second as nil, and then reports that the number does not fit a
  \<^verbatim>\<open>float64\<close>; the error is dropped and the map with its two entries is returned, not a
  nil map.
\<close>

theorem failed_decoding_returns_filled_map:
  "fst (goUnmarshal overflowMetadata) =
     Some ''json: cannot unmarshal number 1e999 into Go value of type float64'' \<and>
   marshalEndpointMetadata goUnmarshal overflowMetadata =
     AnyJSON (Some [(''a'', ''1''), (''b'', ''null'')])"
  by (simp add: marshalEndpointMetadata_def goUnmarshal_def overflowMetadata_def)

text \<open>
  Claim C10, amended. \<^verbatim>\<open>marshalEndpointMetadata\<close> returns the map that the decoder
  leaves for the metadata, whatever error it reports, exactly when the metadata is longer
  than 2 and starts with an opening brace, and the metadata string itself in every other
  case.
\<close>

theorem marshalEndpointMetadata_cases:
  "marshalEndpointMetadata json_Unmarshal metadata =
     (if 2 < length metadata \<and> hd metadata = CHR ''{'' then
        AnyJSON (snd (json_Unmarshal metadata))
      else Plain metadata)"
proof (cases "2 < length metadata")
  case True
  then have "metadata \<noteq> []" by auto
  then show ?thesis
    using True
    by (simp add: marshalEndpointMetadata_def strings_Index_brace split: prod.splits)
next
  case False
  then show ?thesis
    by (simp add: marshalEndpointMetadata_def)
qed

section \<open>Pages to fetch\<close>

lemma Max_insert_max:
  fixes a v :: int
  shows "finite S \<Longrightarrow> Max (insert (max a v) S) = Max (insert a (insert v S))"
  by (cases "S = {}") (simp_all add: max.assoc)

lemma getTotalPages_fold:
  "foldl (\<lambda>max endpointGuid.
              (case m endpointGuid of
                 Some endpoint \<Rightarrow> (if max < total_pages endpoint then total_pages endpoint else max)
               | None \<Rightarrow> max)) a ks =
   Max (insert a (total_pages ` {e. \<exists>k\<in>set ks. m k = Some e}))"
proof (induction ks arbitrary: a)
  case Nil
  show ?case by simp
next
  case (Cons k ks)
  have fin: "finite (total_pages ` {e. \<exists>k\<in>set ks. m k = Some e})"
  proof -
    have "{e. \<exists>k\<in>set ks. m k = Some e} \<subseteq> (\<lambda>k. the (m k)) ` set ks"
      by force
    then have "finite {e. \<exists>k\<in>set ks. m k = Some e}"
      by (rule finite_subset) simp
    then show ?thesis by simp
  qed
  show ?case
  proof (cases "m k")
    case None
    then have "{e. \<exists>k'\<in>set (k # ks). m k' = Some e} = {e. \<exists>k\<in>set ks. m k = Some e}"
      by auto
    then show ?thesis using None Cons.IH by simp
  next
    case (Some e)
    then have set: "{e. \<exists>k'\<in>set (k # ks). m k' = Some e} = insert e {e. \<exists>k\<in>set ks. m k = Some e}"
      by auto
    have step: "(if a < total_pages e then total_pages e else a) = max a (total_pages e)"
      by (simp add: max_def)
    have img: "total_pages ` {e. \<exists>k'\<in>set (k # ks). m k' = Some e} =
        insert (total_pages e) (total_pages ` {e. \<exists>k\<in>set ks. m k = Some e})"
      unfolding set by (rule image_insert)
    have "foldl (\<lambda>max endpointGuid.
              (case m endpointGuid of
                 Some endpoint \<Rightarrow> (if max < total_pages endpoint then total_pages endpoint else max)
               | None \<Rightarrow> max)) a (k # ks) =
          Max (insert (max a (total_pages e)) (total_pages ` {e. \<exists>k\<in>set ks. m k = Some e}))"
      using Some by (simp only: foldl_Cons option.case step Cons.IH)
    also have "\<dots> = Max (insert a (insert (total_pages e)
        (total_pages ` {e. \<exists>k\<in>set ks. m k = Some e})))"
      by (rule Max_insert_max [OF fin])
    finally show ?thesis
      unfolding img .
  qed
qed

lemma ran_map_of_keys: "{e. \<exists>k\<in>set (map fst res). map_of res k = Some e} = ran (map_of res)"
proof
  show "{e. \<exists>k\<in>set (map fst res). map_of res k = Some e} \<subseteq> ran (map_of res)"
    by (auto simp: ran_def)
  show "ran (map_of res) \<subseteq> {e. \<exists>k\<in>set (map fst res). map_of res k = Some e}"
  proof
    fix e
    assume "e \<in> ran (map_of res)"
    then obtain k where k: "map_of res k = Some e"
      by (auto simp: ran_def)
    then have "(k, e) \<in> set res" by (rule map_of_SomeD)
    then have "k \<in> set (map fst res)" by force
    with k show "e \<in> {e. \<exists>k\<in>set (map fst res). map_of res k = Some e}" by blast
  qed
qed

text \<open>
  Claim C9, as stated, fails for the empty response: \<^verbatim>\<open>getTotalPages\<close> is 0 there, and
  the requests joined are not 0 but one, the first request made already.
\<close>

theorem empty_response_one_request:
  "getTotalPages [] = 0 \<and> length (flattenPagination_requests getTotalPages []) = 1"
  by (simp add: getTotalPages_def flattenPagination_requests_def)

text \<open>
  Claim C9, amended. \<^verbatim>\<open>getTotalPages\<close> returns the largest \<^verbatim>\<open>total_pages\<close> of the
  endpoints of the response, counted from 0 (so 0 for the empty response). The requests
  of \<^verbatim>\<open>flattenPagination\<close> are the first response and a fetch of each page from 2 to
  that maximum: as many as the maximum says when it is 1 or more, and the first one alone
  when it is 1 or less.
\<close>

theorem getTotalPages_and_requests:
  "getTotalPages res = Max (insert 0 (total_pages ` ran (map_of res))) \<and>
   flattenPagination_requests getTotalPages res =
     FirstResData res # map Fetch [2..getTotalPages res] \<and>
   int (length (flattenPagination_requests getTotalPages res)) = max 1 (getTotalPages res)"
proof -
  have 1: "getTotalPages res = Max (insert 0 (total_pages ` ran (map_of res)))"
    unfolding getTotalPages_def getTotalPages_fold ran_map_of_keys ..
  have 2: "flattenPagination_requests getTotalPages res =
     FirstResData res # map Fetch [2..getTotalPages res]"
    by (simp add: flattenPagination_requests_def Let_def)
  have 3: "int (length (flattenPagination_requests getTotalPages res)) = max 1 (getTotalPages res)"
    unfolding 2 by simp
  from 1 2 3 show ?thesis by (intro conjI)
qed

theorem getTotalPages_and_requests_witness:
  "getTotalPages exResponse = 5 \<and>
   flattenPagination_requests getTotalPages exResponse =
     [FirstResData exResponse, Fetch 2, Fetch 3, Fetch 4, Fetch 5] \<and>
   length (flattenPagination_requests getTotalPages exResponse) = 5"
proof -
  have five: "getTotalPages exResponse = 5"
    by (simp add: getTotalPages_def exResponse_def)
  show ?thesis
    using getTotalPages_and_requests [of exResponse] by (simp add: five)
qed

end
